theory Spec2Isabelle
  imports Complex_Main "HOL-Library.Char_ord"
begin

chapter \<open>The model\<close>

section \<open>JavaScript string helpers\<close>

text \<open>
  The handlers use a handful of \<^verbatim>\<open>String.prototype\<close> methods, always with a non-empty
  literal as the needle: \<^verbatim>\<open>startsWith\<close>, \<^verbatim>\<open>includes\<close> and \<^verbatim>\<open>split\<close>.
  Strings are lists of characters, a character being a code unit from 0 to 255 (Latin-1);
  text with code units above that range is outside the model.
\<close>

definition startsWith :: "string \<Rightarrow> string \<Rightarrow> bool" where
  "startsWith s p = (take (length p) s = p)"

fun includes_str :: "string \<Rightarrow> string \<Rightarrow> bool" where
  "includes_str [] p = (p = [])"
| "includes_str (c # cs) p = (startsWith (c # cs) p \<or> includes_str cs p)"

text \<open>
  \<^verbatim>\<open>s.split(sep)\<close>: the pieces of \<open>s\<close> between the occurrences of \<open>sep\<close>, scanning from the
  left; \<open>cur\<close> is the piece being collected, in reverse. An empty \<open>sep\<close> (never used by the
  program) is treated as absent.
\<close>

function split_from :: "string \<Rightarrow> string \<Rightarrow> string \<Rightarrow> string list" where
  "split_from sep cur [] = [rev cur]"
| "split_from sep cur (c # cs) =
     (if sep \<noteq> [] \<and> startsWith (c # cs) sep
      then rev cur # split_from sep [] (drop (length sep) (c # cs))
      else split_from sep (c # cur) cs)"
  by pat_completeness auto
termination
  by (relation "measure (\<lambda>(sep, cur, s). length s)") auto

definition split :: "string \<Rightarrow> string \<Rightarrow> string list" where
  "split s sep = split_from sep [] s"

text \<open>\<^verbatim>\<open>arr[i]\<close> on an array of strings: \<^verbatim>\<open>undefined\<close> out of range.\<close>

definition at_index :: "'a list \<Rightarrow> nat \<Rightarrow> 'a option" where
  "at_index xs i = (if i < length xs then Some (xs ! i) else None)"

text \<open>Truthiness of an optional string: \<^verbatim>\<open>undefined\<close> and the empty string are falsy.\<close>

fun truthy :: "string option \<Rightarrow> bool" where
  "truthy None = False"
| "truthy (Some s) = (s \<noteq> [])"

section \<open>Data model (models/User.js)\<close>

text \<open>
  A collection is the list of its documents in insertion order, and an ObjectId is a
  number. The database is taken to be reachable: a connectivity fault, which every
  handler's \<^verbatim>\<open>catch\<close> answers with 500, is not part of the model.
\<close>

type_synonym object_id = nat

datatype role = RoleUser | RoleAdmin

record user =
  user_id :: object_id
  firebaseUid :: string
  githubId :: "string option"
  email :: "string option"
  username :: string
  displayName :: "string option"
  profileUrl :: "string option"
  avatarUrl :: "string option"
  user_createdAt :: int
  user_role :: role

text \<open>The virtual \<^verbatim>\<open>isAdmin\<close>: a getter only, \<^verbatim>\<open>this.role === 'admin'\<close>.\<close>

definition isAdmin :: "user \<Rightarrow> bool" where
  "isAdmin u = (user_role u = RoleAdmin)"

text \<open>\<^verbatim>\<open>User.findById(id)\<close> and \<^verbatim>\<open>User.findOne({ firebaseUid: uid })\<close> over the collection.\<close>

definition User_findById :: "user list \<Rightarrow> object_id \<Rightarrow> user option" where
  "User_findById users i = find (\<lambda>u. user_id u = i) users"

definition User_findOne_firebaseUid :: "user list \<Rightarrow> string \<Rightarrow> user option" where
  "User_findOne_firebaseUid users uid = find (\<lambda>u. firebaseUid u = uid) users"

text \<open>\<^verbatim>\<open>populate('user', 'username displayName avatarUrl')\<close> joins this projection of the owner.\<close>

type_synonym user_projection = "string \<times> string option \<times> string option"

definition project_user :: "user \<Rightarrow> user_projection" where
  "project_user u = (username u, displayName u, avatarUrl u)"

section \<open>Data model (models/Image.js)\<close>

record image =
  image_id :: object_id
  imageUrl :: string
  title :: string
  description :: string
  tags :: "string list"
  image_user :: object_id
  likes :: "object_id list"
  image_createdAt :: int

definition Image_findById :: "image list \<Rightarrow> object_id \<Rightarrow> image option" where
  "Image_findById images i = find (\<lambda>d. image_id d = i) images"

text \<open>\<^verbatim>\<open>Image.findByIdAndDelete(id)\<close> removes the one document with that id, if there is one.\<close>

definition Image_findByIdAndDelete :: "image list \<Rightarrow> object_id \<Rightarrow> image list" where
  "Image_findByIdAndDelete images i =
     (case Image_findById images i of None \<Rightarrow> images | Some d \<Rightarrow> remove1 d images)"

definition populate :: "user list \<Rightarrow> image \<Rightarrow> image \<times> user_projection option" where
  "populate users d = (d, map_option project_user (User_findById users (image_user d)))"

section \<open>Requests, sessions and responses\<close>

text \<open>
  The session object of express-session: \<^verbatim>\<open>req.session\<close> is absent after
  \<^verbatim>\<open>req.session.destroy()\<close>; \<^verbatim>\<open>req.session.userId\<close> is absent until a handler writes it.
\<close>

record session =
  userId :: "object_id option"

record request =
  req_session :: "session option"
  req_authorization :: "string option"
  req_user :: "user option"

text \<open>The \<^verbatim>\<open>pagination\<close> object of a listing; \<open>pages\<close> is \<open>None\<close> where \<^verbatim>\<open>Math.ceil\<close> gives
  \<^verbatim>\<open>Infinity\<close> or \<^verbatim>\<open>NaN\<close> (sent as \<^verbatim>\<open>null\<close>).\<close>

record pagination =
  total :: nat
  page :: int
  limit :: int
  pages :: "int option"

text \<open>The JSON bodies the handlers send, by shape.\<close>

datatype body =
    Message string
  | MessageError string string
  | AuthFailure string string
  | MessageCaught string
  | InvalidAuthToken
  | UserJson object_id string "string option" "string option" bool
  | ImageJson image "user_projection option"
  | NoImage
  | MessageNoDetail string
  | Removed object_id
  | ImageList "(image \<times> user_projection option) list" pagination
  | UserImageList "(image \<times> user_projection option) list" pagination user_projection
  | SearchResult "(image \<times> user_projection option) list" pagination string

type_synonym response = "nat \<times> body"

text \<open>A middleware either answers the request or calls \<^verbatim>\<open>next()\<close>; both may have changed \<^verbatim>\<open>req\<close>.\<close>

datatype mw_result = Respond response request | Next request

text \<open>
  \<^verbatim>\<open>admin.auth().verifyIdToken(idToken)\<close> is the external Credential Verifier: a parameter
  of the model, \<open>None\<close> when it throws.
\<close>

record decoded_token =
  uid :: string
  tok_email :: "string option"
  tok_name :: "string option"
  tok_picture :: "string option"
  sign_in_provider :: "string option"

type_synonym verifier = "string \<Rightarrow> decoded_token option"

section \<open>middleware/authMiddleware.js\<close>

definition USER_NOT_FOUND :: response where
  "USER_NOT_FOUND = (401, AuthFailure ''User not found. Please log in again.'' ''USER_NOT_FOUND'')"

definition INVALID_TOKEN :: response where
  "INVALID_TOKEN = (401, AuthFailure ''Invalid or expired authentication token.'' ''INVALID_TOKEN'')"

definition UNAUTHORIZED_ACCESS :: response where
  "UNAUTHORIZED_ACCESS =
     (401, AuthFailure ''Authentication required. Please log in to access this resource.''
        ''UNAUTHORIZED_ACCESS'')"

definition INTERNAL_SERVER_ERROR :: response where
  "INTERNAL_SERVER_ERROR =
     (500, AuthFailure ''Server error during authentication.'' ''INTERNAL_SERVER_ERROR'')"

text \<open>
  The bearer branch of \<^verbatim>\<open>ensureAuthenticated\<close>, entered when the header starts with
  \<^verbatim>\<open>'Bearer '\<close>. \<^verbatim>\<open>authHeader.split('Bearer ')[1]\<close> is always present then.
\<close>

definition ensure_bearer :: "verifier \<Rightarrow> user list \<Rightarrow> request \<Rightarrow> session \<Rightarrow> string \<Rightarrow> mw_result" where
  "ensure_bearer verifyIdToken users req sess authHeader =
     (case at_index (split authHeader ''Bearer '') 1 of
        None \<Rightarrow> Respond INVALID_TOKEN req
      | Some idToken \<Rightarrow>
          (case verifyIdToken idToken of
             None \<Rightarrow> Respond INVALID_TOKEN req
           | Some decodedToken \<Rightarrow>
               (case User_findOne_firebaseUid users (uid decodedToken) of
                  None \<Rightarrow> Respond USER_NOT_FOUND req
                | Some u \<Rightarrow>
                    Next (req\<lparr>req_session := Some (sess\<lparr>userId := Some (user_id u)\<rparr>),
                              req_user := Some u\<rparr>))))"

text \<open>
  \<^verbatim>\<open>ensureAuthenticated(req, res, next)\<close>. Reading \<^verbatim>\<open>req.session.userId\<close> of an absent
  session throws, which the outer \<^verbatim>\<open>catch\<close> answers with 500. The user collection is only read.
\<close>

definition ensureAuthenticated :: "verifier \<Rightarrow> user list \<Rightarrow> request \<Rightarrow> mw_result" where
  "ensureAuthenticated verifyIdToken users req =
     (case req_session req of
        None \<Rightarrow> Respond INTERNAL_SERVER_ERROR req
      | Some sess \<Rightarrow>
          (case userId sess of
             Some i \<Rightarrow>
               (case User_findById users i of
                  None \<Rightarrow> Respond USER_NOT_FOUND req
                | Some u \<Rightarrow> Next (req\<lparr>req_user := Some u\<rparr>))
           | None \<Rightarrow>
               (case req_authorization req of
                  None \<Rightarrow> Respond UNAUTHORIZED_ACCESS req
                | Some authHeader \<Rightarrow>
                    if authHeader \<noteq> [] \<and> startsWith authHeader ''Bearer ''
                    then ensure_bearer verifyIdToken users req sess authHeader
                    else Respond UNAUTHORIZED_ACCESS req)))"

section \<open>routes/auth.js: GET /user\<close>

text \<open>
  The handler answers from the session alone; when the stored id no longer resolves it
  destroys the session before answering (``Clear invalid session'').
\<close>

definition get_user :: "user list \<Rightarrow> request \<Rightarrow> response \<times> request" where
  "get_user users req =
     (case req_session req of
        None \<Rightarrow> ((401, Message ''Not authenticated''), req)
      | Some sess \<Rightarrow>
          (case userId sess of
             None \<Rightarrow> ((401, Message ''Not authenticated''), req)
           | Some i \<Rightarrow>
               (case User_findById users i of
                  None \<Rightarrow> ((401, Message ''User not found''), req\<lparr>req_session := None\<rparr>)
                | Some u \<Rightarrow>
                    ((200, UserJson (user_id u) (username u) (displayName u) (avatarUrl u)
                             (user_role u = RoleAdmin)), req))))"

section \<open>Schema setters and nat printing\<close>

text \<open>
  \<^verbatim>\<open>trim: true\<close> in a schema applies \<^verbatim>\<open>String.prototype.trim\<close> when the field is set:
  white space and line terminators are removed at both ends. Among the characters up to
  255 these are the space, TAB, LF, VT, FF, CR and the no-break space U+00A0.
\<close>

definition is_space :: "char \<Rightarrow> bool" where
  "is_space c = (c = CHR '' '' \<or> c = CHR 0x09 \<or> c = CHR 0x0A \<or> c = CHR 0x0B
                 \<or> c = CHR 0x0C \<or> c = CHR 0x0D \<or> c = CHR 0xA0)"

definition trim :: "string \<Rightarrow> string" where
  "trim s = rev (dropWhile is_space (rev (dropWhile is_space s)))"

text \<open>
  \<^verbatim>\<open>lowercase: true\<close> applies \<^verbatim>\<open>toLowerCase\<close>: among the characters up to 255 the
  letters A to Z and the accented capitals U+00C0 to U+00DE (without the sign U+00D7)
  go to the letter 32 places on; every other character stays.
\<close>

definition upper_letters :: string where
  "upper_letters =
     ''ABCDEFGHIJKLMNOPQRSTUVWXYZ'' @
     [CHR 0xC0, CHR 0xC1, CHR 0xC2, CHR 0xC3, CHR 0xC4, CHR 0xC5, CHR 0xC6,
      CHR 0xC7, CHR 0xC8, CHR 0xC9, CHR 0xCA, CHR 0xCB, CHR 0xCC, CHR 0xCD,
      CHR 0xCE, CHR 0xCF, CHR 0xD0, CHR 0xD1, CHR 0xD2, CHR 0xD3, CHR 0xD4,
      CHR 0xD5, CHR 0xD6, CHR 0xD8, CHR 0xD9, CHR 0xDA, CHR 0xDB, CHR 0xDC,
      CHR 0xDD, CHR 0xDE]"

definition lower_letters :: string where
  "lower_letters =
     ''abcdefghijklmnopqrstuvwxyz'' @
     [CHR 0xE0, CHR 0xE1, CHR 0xE2, CHR 0xE3, CHR 0xE4, CHR 0xE5, CHR 0xE6,
      CHR 0xE7, CHR 0xE8, CHR 0xE9, CHR 0xEA, CHR 0xEB, CHR 0xEC, CHR 0xED,
      CHR 0xEE, CHR 0xEF, CHR 0xF0, CHR 0xF1, CHR 0xF2, CHR 0xF3, CHR 0xF4,
      CHR 0xF5, CHR 0xF6, CHR 0xF8, CHR 0xF9, CHR 0xFA, CHR 0xFB, CHR 0xFC,
      CHR 0xFD, CHR 0xFE]"

definition lower_char :: "char \<Rightarrow> char" where
  "lower_char c =
     (case map_of (zip upper_letters lower_letters) c of
        None \<Rightarrow> c
      | Some l \<Rightarrow> l)"

definition toLowerCase :: "string \<Rightarrow> string" where
  "toLowerCase s = map lower_char s"

text \<open>The decimal digits of a number, as a template literal prints \<^verbatim>\<open>Date.now()\<close>.\<close>

function show_nat :: "nat \<Rightarrow> string" where
  "show_nat n =
     (if n < 10 then [''0123456789'' ! n]
      else show_nat (n div 10) @ [''0123456789'' ! (n mod 10)])"
  by pat_completeness auto
termination
  by (relation "measure (\<lambda>n. n)") auto

section \<open>routes/auth.js: POST /firebase-auth\<close>

text \<open>
  The user document the handler builds for a previously unseen external identity. The
  schema trims \<^verbatim>\<open>email\<close>, \<^verbatim>\<open>username\<close>, \<^verbatim>\<open>displayName\<close> and \<^verbatim>\<open>avatarUrl\<close>. The key
  \<^verbatim>\<open>isAdmin: false\<close> names a virtual that has a getter only, so it sets nothing; \<^verbatim>\<open>role\<close>
  takes its schema default \<^verbatim>\<open>'user'\<close> and \<^verbatim>\<open>createdAt\<close> its default \<^verbatim>\<open>Date.now\<close>.
\<close>

definition new_username :: "decoded_token \<Rightarrow> nat \<Rightarrow> string" where
  "new_username t now =
     (if truthy (tok_name t) then the (tok_name t)
      else if truthy (tok_email t)
           then (case at_index (split (the (tok_email t)) ''@'') 0 of Some l \<Rightarrow> l | None \<Rightarrow> [])
           else ''user_'' @ show_nat now)"

definition new_user :: "decoded_token \<Rightarrow> nat \<Rightarrow> object_id \<Rightarrow> user" where
  "new_user t now oid =
     \<lparr>user_id = oid,
      firebaseUid = uid t,
      githubId = None,
      email = map_option trim (tok_email t),
      username = trim (new_username t now),
      displayName = Some (trim (if truthy (tok_name t) then the (tok_name t) else new_username t now)),
      profileUrl = None,
      avatarUrl = map_option trim (tok_picture t),
      user_createdAt = int now,
      user_role = RoleUser\<rparr>"

text \<open>
  \<^verbatim>\<open>user.save()\<close> of a new document: the \<^verbatim>\<open>required\<close> validators (an empty string fails
  them), then the insert, which the unique index on \<^verbatim>\<open>firebaseUid\<close> rejects (E11000) when
  the collection already holds that external identity. \<open>None\<close> is a thrown error.
\<close>

definition User_insert :: "user list \<Rightarrow> user \<Rightarrow> user list option" where
  "User_insert users u =
     (if firebaseUid u = [] \<or> username u = [] then None
      else if User_findOne_firebaseUid users (firebaseUid u) \<noteq> None then None
      else Some (users @ [u]))"

text \<open>
  \<^verbatim>\<open>Object.assign(user, updates)\<close>: the profile hints that differ from the document \<open>u\<close>
  the handler read, assigned through the schema's setters to a document \<open>v\<close>.
\<close>

definition assign_hints :: "decoded_token \<Rightarrow> user \<Rightarrow> user \<Rightarrow> user" where
  "assign_hints t u v =
     (let v1 = (if truthy (tok_name t) \<and> displayName u \<noteq> tok_name t
                then v\<lparr>displayName := map_option trim (tok_name t)\<rparr> else v);
          v2 = (if truthy (tok_picture t) \<and> avatarUrl u \<noteq> tok_picture t
                then v1\<lparr>avatarUrl := map_option trim (tok_picture t)\<rparr> else v1)
      in if truthy (tok_email t) \<and> email u \<noteq> tok_email t
         then v2\<lparr>email := map_option trim (tok_email t)\<rparr> else v2)"

text \<open>The document in the handler's hands after the assignment.\<close>

definition update_hints :: "decoded_token \<Rightarrow> user \<Rightarrow> user" where
  "update_hints t u = assign_hints t u u"

definition has_updates :: "decoded_token \<Rightarrow> user \<Rightarrow> bool" where
  "has_updates t u =
     ((truthy (tok_name t) \<and> displayName u \<noteq> tok_name t)
      \<or> (truthy (tok_picture t) \<and> avatarUrl u \<noteq> tok_picture t)
      \<or> (truthy (tok_email t) \<and> email u \<noteq> tok_email t))"

text \<open>
  \<^verbatim>\<open>user.save()\<close> of the existing document writes the modified fields only, to the
  stored document with that \<^verbatim>\<open>_id\<close>, and throws when the document is gone (\<open>None\<close>).
\<close>

definition User_update :: "user list \<Rightarrow> decoded_token \<Rightarrow> user \<Rightarrow> user list option" where
  "User_update users t u =
     (if User_findById users (user_id u) = None then None
      else Some (map (\<lambda>v. if user_id v = user_id u then assign_hints t u v else v) users))"

definition user_json :: "user \<Rightarrow> body" where
  "user_json u = UserJson (user_id u) (username u) (displayName u) (avatarUrl u) (isAdmin u)"

text \<open>
  The last step of the handler, shared by both branches: \<^verbatim>\<open>req.session.userId = user._id\<close>
  (which throws into the inner \<^verbatim>\<open>catch\<close> when there is no session) and the 200 answer.
\<close>

definition processing_error :: response where
  "processing_error = (500, MessageCaught ''Error processing user data'')"

definition create_session :: "request \<Rightarrow> user \<Rightarrow> user list \<Rightarrow> response \<times> request \<times> user list" where
  "create_session req u users =
     (case req_session req of
        None \<Rightarrow> (processing_error, req, users)
      | Some sess \<Rightarrow>
          ((200, user_json u), req\<lparr>req_session := Some (sess\<lparr>userId := Some (user_id u)\<rparr>)\<rparr>, users))"

text \<open>
  The handler. \<open>now\<close> is \<^verbatim>\<open>Date.now()\<close> and \<open>oid\<close> the fresh \<^verbatim>\<open>_id\<close> of a new document.
  The handler suspends between \<^verbatim>\<open>User.findOne\<close> and \<^verbatim>\<open>user.save()\<close>, so other requests
  may run in between: \<open>users\<close> is the collection as \<^verbatim>\<open>findOne\<close> reads it and \<open>users_at_save\<close>
  the collection as \<^verbatim>\<open>save\<close> finds it (the same when nothing ran in between). The result
  carries the collection the handler leaves behind: \<open>users_at_save\<close> with the handler's
  write, if it made one.
\<close>

definition firebase_auth ::
  "verifier \<Rightarrow> nat \<Rightarrow> object_id \<Rightarrow> string option \<Rightarrow> request \<Rightarrow> user list \<Rightarrow> user list
     \<Rightarrow> response \<times> request \<times> user list" where
  "firebase_auth verifyIdToken now oid idToken req users users_at_save =
     (if \<not> truthy idToken then ((400, Message ''ID token is required''), req, users_at_save)
      else
        (case verifyIdToken (the idToken) of
           None \<Rightarrow> ((401, InvalidAuthToken), req, users_at_save)
         | Some t \<Rightarrow>
             (if \<not> truthy (sign_in_provider t)
                 \<or> \<not> includes_str (the (sign_in_provider t)) ''github''
              then ((403, Message ''Only GitHub authentication is supported''), req, users_at_save)
              else
                (case User_findOne_firebaseUid users (uid t) of
                   None \<Rightarrow>
                     (case User_insert users_at_save (new_user t now oid) of
                        None \<Rightarrow> (processing_error, req, users_at_save)
                      | Some users' \<Rightarrow> create_session req (new_user t now oid) users')
                 | Some u \<Rightarrow>
                     (if has_updates t u
                      then (case User_update users_at_save t u of
                              None \<Rightarrow> (processing_error, req, users_at_save)
                            | Some users' \<Rightarrow> create_session req (update_hints t u) users')
                      else create_session req u users_at_save)))))"

section \<open>The uploads directory\<close>

text \<open>
  Paths are lists of segments from the root. \<^verbatim>\<open>path.join\<close> splits its arguments at
  \<^verbatim>\<open>/\<close> and normalises: empty and \<^verbatim>\<open>.\<close> segments vanish, \<^verbatim>\<open>..\<close> drops the segment before
  it (and stays at the root). \<open>st\<close> is the normalised prefix, in reverse.
\<close>

type_synonym path = "string list"

fun normalize_from :: "string list \<Rightarrow> string list \<Rightarrow> path" where
  "normalize_from st [] = rev st"
| "normalize_from st (s # ss) =
     (if s = [] \<or> s = ''.'' then normalize_from st ss
      else if s = ''..'' then normalize_from (tl st) ss
      else normalize_from (s # st) ss)"

definition path_join :: "path \<Rightarrow> string \<Rightarrow> path" where
  "path_join dir p = normalize_from (rev dir) (split p ''/'')"

datatype fs_entry = File | Dir

type_synonym filesystem = "path \<rightharpoonup> fs_entry"

definition existsSync :: "filesystem \<Rightarrow> path \<Rightarrow> bool" where
  "existsSync fs p = (fs p \<noteq> None)"

text \<open>\<^verbatim>\<open>fs.unlinkSync\<close> removes a file and throws on anything else (\<open>None\<close>).\<close>

definition unlinkSync :: "filesystem \<Rightarrow> path \<Rightarrow> filesystem option" where
  "unlinkSync fs p = (if fs p = Some File then Some (fs(p := None)) else None)"

section \<open>routes/images.js: DELETE /:id\<close>

text \<open>
  \<^verbatim>\<open>req.params.id\<close> either casts to an ObjectId or makes \<^verbatim>\<open>findById\<close> throw a CastError of
  kind \<^verbatim>\<open>ObjectId\<close>.
\<close>

datatype id_param = InvalidId | ObjectId object_id

text \<open>
  The file clean-up of the handler (``Delete the file if it's a local upload''): \<open>None\<close>
  when \<^verbatim>\<open>unlinkSync\<close> throws. \<open>uploadDir\<close> is \<^verbatim>\<open>path.join(__dirname, '../uploads')\<close>.
\<close>

definition delete_backing_file :: "path \<Rightarrow> filesystem \<Rightarrow> string \<Rightarrow> filesystem option" where
  "delete_backing_file uploadDir fs url =
     (if includes_str url ''/uploads/''
      then (case at_index (split url ''/uploads/'') 1 of
              None \<Rightarrow> None
            | Some filePath \<Rightarrow>
                (let fullPath = path_join uploadDir filePath
                 in if existsSync fs fullPath then unlinkSync fs fullPath else Some fs))
      else Some fs)"

text \<open>The handler after \<^verbatim>\<open>ensureAuthenticated\<close>; \<open>reqUser\<close> is \<^verbatim>\<open>req.user\<close>.\<close>

definition delete_image ::
  "path \<Rightarrow> user \<Rightarrow> id_param \<Rightarrow> image list \<Rightarrow> filesystem \<Rightarrow> response \<times> image list \<times> filesystem" where
  "delete_image uploadDir reqUser param images fs =
     (case param of
        InvalidId \<Rightarrow> ((404, Message ''Invalid image ID format''), images, fs)
      | ObjectId i \<Rightarrow>
          (case Image_findById images i of
             None \<Rightarrow> ((404, Message ''Image not found''), images, fs)
           | Some d \<Rightarrow>
               (let isAdmin = (user_role reqUser = RoleAdmin);
                    isOwner = (image_user d = user_id reqUser)
                in if \<not> isOwner \<and> \<not> isAdmin
                   then ((403, Message ''Not authorized to delete this image''), images, fs)
                   else (case delete_backing_file uploadDir fs (imageUrl d) of
                           None \<Rightarrow> ((500, MessageCaught ''Server Error''), images, fs)
                         | Some fs' \<Rightarrow>
                             ((200, Removed i), Image_findByIdAndDelete images i, fs')))))"

section \<open>routes/images.js: GET /, GET /user/:username, GET /search\<close>

text \<open>
  The query parameters \<^verbatim>\<open>limit\<close> and \<^verbatim>\<open>page\<close> are given by the integer \<^verbatim>\<open>parseInt\<close> reads
  from them, \<open>None\<close> when the parameter is absent and the default (50, 1) applies; text
  that \<^verbatim>\<open>parseInt\<close> reads as \<^verbatim>\<open>NaN\<close> is outside the model. Numbers are exact.
\<close>

definition limit_of :: "int option \<Rightarrow> int" where
  "limit_of q = (case q of None \<Rightarrow> 50 | Some l \<Rightarrow> l)"

definition page_of :: "int option \<Rightarrow> int" where
  "page_of q = (case q of None \<Rightarrow> 1 | Some p \<Rightarrow> p)"

text \<open>
  \<^verbatim>\<open>.skip(skip).limit(limit)\<close> on a sorted cursor. The database rejects a negative skip
  (\<open>None\<close>: the query throws); a limit of 0 is no limit and a negative limit counts as its
  absolute value.
\<close>

definition skip_limit :: "int \<Rightarrow> int \<Rightarrow> 'a list \<Rightarrow> 'a list option" where
  "skip_limit skip lmt xs =
     (if skip < 0 then None
      else Some (if lmt = 0 then drop (nat skip) xs else take (nat \<bar>lmt\<bar>) (drop (nat skip) xs)))"

text \<open>\<^verbatim>\<open>.sort({ createdAt: -1 })\<close>: newest first.\<close>

definition newest_first :: "image list \<Rightarrow> image list" where
  "newest_first ds = sort_key (\<lambda>d. - image_createdAt d) ds"

text \<open>\<^verbatim>\<open>Math.ceil(total / parseInt(limit))\<close>.\<close>

definition pages_of :: "nat \<Rightarrow> int \<Rightarrow> int option" where
  "pages_of n lmt = (if lmt = 0 then None else Some \<lceil>real n / real_of_int lmt\<rceil>)"

definition pagination_of :: "nat \<Rightarrow> int option \<Rightarrow> int option \<Rightarrow> pagination" where
  "pagination_of n limitQ pageQ =
     \<lparr>total = n, page = page_of pageQ, limit = limit_of limitQ,
      pages = pages_of n (limit_of limitQ)\<rparr>"

definition get_images :: "user list \<Rightarrow> image list \<Rightarrow> int option \<Rightarrow> int option \<Rightarrow> response" where
  "get_images users images limitQ pageQ =
     (let skip = (page_of pageQ - 1) * limit_of limitQ
      in case skip_limit skip (limit_of limitQ) (newest_first images) of
           None \<Rightarrow> (500, MessageCaught ''Server Error'')
         | Some ds \<Rightarrow>
             (200, ImageList (map (populate users) ds)
                     (pagination_of (length images) limitQ pageQ)))"

definition User_findOne_username :: "user list \<Rightarrow> string \<Rightarrow> user option" where
  "User_findOne_username users name = find (\<lambda>u. username u = name) users"

definition get_user_images ::
  "user list \<Rightarrow> image list \<Rightarrow> string \<Rightarrow> int option \<Rightarrow> int option \<Rightarrow> response" where
  "get_user_images users images name limitQ pageQ =
     (case User_findOne_username users name of
        None \<Rightarrow> (404, Message ''User not found'')
      | Some u \<Rightarrow>
          (let skip = (page_of pageQ - 1) * limit_of limitQ;
               mine = filter (\<lambda>d. image_user d = user_id u) images
           in case skip_limit skip (limit_of limitQ) (newest_first mine) of
                None \<Rightarrow> (500, MessageCaught ''Server Error'')
              | Some ds \<Rightarrow>
                  (200, UserImageList (map (populate users) ds)
                          (pagination_of (length mine) limitQ pageQ) (project_user u))))"

text \<open>
  The text index is external: \<open>textScore\<close> is its answer to the request's query, the
  relevance score of each document that matches and \<open>None\<close> for the others.
  \<^verbatim>\<open>.sort({ score: { $meta: 'textScore' } })\<close> orders by descending score.
\<close>

definition by_relevance :: "(image \<rightharpoonup> nat) \<Rightarrow> image list \<Rightarrow> image list" where
  "by_relevance textScore ds = sort_key (\<lambda>d. - int (the (textScore d))) ds"

definition get_search ::
  "(image \<rightharpoonup> nat) \<Rightarrow> user list \<Rightarrow> image list \<Rightarrow> string option \<Rightarrow> int option \<Rightarrow> int option
     \<Rightarrow> response" where
  "get_search textScore users images q limitQ pageQ =
     (let skip = (page_of pageQ - 1) * limit_of limitQ
      in if \<not> truthy q then (400, Message ''Search query is required'')
         else
           (let found = filter (\<lambda>d. textScore d \<noteq> None) images
            in case skip_limit skip (limit_of limitQ) (by_relevance textScore found) of
                 None \<Rightarrow> (500, MessageCaught ''Server Error'')
               | Some ds \<Rightarrow>
                   (200, SearchResult (map (populate users) ds)
                           (pagination_of (length found) limitQ pageQ) (the q))))"

section \<open>Regular expressions\<close>

text \<open>
  The two patterns of the program use literals, character classes, \<^verbatim>\<open>?\<close>, \<^verbatim>\<open>*\<close> and
  \<^verbatim>\<open>+\<close>, without back-references or look-around, so a pattern denotes a regular language
  and \<^verbatim>\<open>test\<close> decides membership. A class is a list of character ranges. Matching is
  by derivatives: \<open>deriv c r\<close> matches what \<open>r\<close> matches after a leading \<open>c\<close>.
\<close>

datatype rexp =
    Zero
  | One
  | Class "(char \<times> char) list"
  | Alt rexp rexp
  | Times rexp rexp
  | Star rexp

definition in_class :: "(char \<times> char) list \<Rightarrow> char \<Rightarrow> bool" where
  "in_class rs c = list_ex (\<lambda>r. fst r \<le> c \<and> c \<le> snd r) rs"

fun nullable :: "rexp \<Rightarrow> bool" where
  "nullable Zero = False"
| "nullable One = True"
| "nullable (Class rs) = False"
| "nullable (Alt r s) = (nullable r \<or> nullable s)"
| "nullable (Times r s) = (nullable r \<and> nullable s)"
| "nullable (Star r) = True"

fun deriv :: "char \<Rightarrow> rexp \<Rightarrow> rexp" where
  "deriv c Zero = Zero"
| "deriv c One = Zero"
| "deriv c (Class rs) = (if in_class rs c then One else Zero)"
| "deriv c (Alt r s) = Alt (deriv c r) (deriv c s)"
| "deriv c (Times r s) =
     (if nullable r then Alt (Times (deriv c r) s) (deriv c s) else Times (deriv c r) s)"
| "deriv c (Star r) = Times (deriv c r) (Star r)"


text \<open>A pattern anchored at the start only (\<^verbatim>\<open>/^.../\<close>) matches some prefix of the string.\<close>

fun matches_prefix :: "rexp \<Rightarrow> string \<Rightarrow> bool" where
  "matches_prefix r [] = nullable r"
| "matches_prefix r (c # cs) = (nullable r \<or> matches_prefix (deriv c r) cs)"

definition Chr :: "char \<Rightarrow> rexp" where
  "Chr c = Class [(c, c)]"

fun Lit :: "string \<Rightarrow> rexp" where
  "Lit [] = One"
| "Lit (c # cs) = Times (Chr c) (Lit cs)"

definition Opt :: "rexp \<Rightarrow> rexp" where
  "Opt r = Alt r One"





text \<open>\<^verbatim>\<open>https?:\/\/\<close>, the scheme of both patterns.\<close>

definition scheme_rexp :: rexp where
  "scheme_rexp = Times (Lit ''http'') (Times (Opt (Chr CHR ''s'')) (Lit ''://''))"




section \<open>models/Image.js: construction and save\<close>

text \<open>
  \<^verbatim>\<open>new Image({ imageUrl, title, description, tags, user })\<close>: the schema's setters trim
  the three strings and trim and lower-case every tag; \<^verbatim>\<open>createdAt\<close> defaults to
  \<^verbatim>\<open>Date.now\<close>, \<^verbatim>\<open>likes\<close> to the empty array, and \<open>oid\<close> is the fresh \<^verbatim>\<open>_id\<close>.
\<close>

definition Image_new ::
  "string \<Rightarrow> string \<Rightarrow> string \<Rightarrow> string list \<Rightarrow> object_id \<Rightarrow> object_id \<Rightarrow> int \<Rightarrow> image" where
  "Image_new url ttl descr tgs owner oid now =
     \<lparr>image_id = oid, imageUrl = trim url, title = trim ttl, description = trim descr,
      tags = map (\<lambda>t. toLowerCase (trim t)) tgs, image_user = owner, likes = [],
      image_createdAt = now\<rparr>"

text \<open>The validators: \<^verbatim>\<open>required\<close> on the URL and the three \<^verbatim>\<open>maxlength\<close> limits.\<close>

definition Image_validate :: "image \<Rightarrow> bool" where
  "Image_validate d =
     (imageUrl d \<noteq> [] \<and> length (title d) \<le> 100 \<and> length (description d) \<le> 500
      \<and> list_all (\<lambda>t. length t \<le> 30) (tags d))"

text \<open>
  The \<^verbatim>\<open>pre('save')\<close> hook: ``If URL doesn't start with http or https, add https'', with
  the test \<^verbatim>\<open>this.imageUrl.match(/^https?:\/\//)\<close>.
\<close>

definition pre_save :: "image \<Rightarrow> image" where
  "pre_save d =
     (if imageUrl d \<noteq> [] \<and> \<not> matches_prefix scheme_rexp (imageUrl d)
      then d\<lparr>imageUrl := ''https://'' @ imageUrl d\<rparr> else d)"

text \<open>
  \<^verbatim>\<open>image.save()\<close> of a new document: validation runs first (it is the built-in first
  \<^verbatim>\<open>pre('save')\<close> hook), then the schema's hook, then the insert, which the unique index
  on \<^verbatim>\<open>_id\<close> guards. \<open>None\<close> is a thrown error.
\<close>

definition Image_save :: "image list \<Rightarrow> image \<Rightarrow> image list option" where
  "Image_save images d =
     (if \<not> Image_validate d then None
      else if Image_findById images (image_id d) \<noteq> None then None
      else Some (images @ [pre_save d]))"

section \<open>routes/images.js: POST /url\<close>



text \<open>
  The JSON body of the request. \<open>b_tags\<close> is the array when \<^verbatim>\<open>tags\<close> is an array of
  strings and \<open>None\<close> when it is not an array; arrays with other elements are outside
  the model.
\<close>

record url_body =
  b_imageUrl :: "string option"
  b_title :: "string option"
  b_description :: "string option"
  b_tags :: "string list option"

text \<open>\<^verbatim>\<open>x || ''\<close> on an optional string.\<close>

definition or_empty :: "string option \<Rightarrow> string" where
  "or_empty x = (case x of None \<Rightarrow> [] | Some s \<Rightarrow> s)"


section \<open>What the patterns and checks mean\<close>






text \<open>The schema's limits on the other fields of the body, after trimming.\<close>

definition within_limits :: "url_body \<Rightarrow> bool" where
  "within_limits b =
     (length (trim (or_empty (b_title b))) \<le> 100
      \<and> length (trim (or_empty (b_description b))) \<le> 500
      \<and> list_all (\<lambda>t. length (trim t) \<le> 30) (case b_tags b of None \<Rightarrow> [] | Some ts \<Rightarrow> ts))"


section \<open>routes/images.js: POST /upload\<close>

text \<open>The file part of the multipart request, as multer sees it.\<close>

record upload_file =
  originalname :: string
  mimetype :: string
  size :: nat

text \<open>
  \<^verbatim>\<open>path.extname\<close>: from the last \<^verbatim>\<open>.\<close> of the last path segment (trailing \<^verbatim>\<open>/\<close> are
  ignored), empty when there is no \<^verbatim>\<open>.\<close>, when the last \<^verbatim>\<open>.\<close> leads the segment, or when
  the segment is \<^verbatim>\<open>..\<close>.
\<close>

definition extname :: "string \<Rightarrow> string" where
  "extname p =
     (let base = last (split (rev (dropWhile (\<lambda>c. c = CHR ''/'') (rev p))) ''/'');
          stem = rev (drop 1 (dropWhile (\<lambda>c. c \<noteq> CHR ''.'') (rev base)))
      in if CHR ''.'' \<notin> set base \<or> stem = [] \<or> base = ''..'' then []
         else drop (length stem) base)"

text \<open>
  \<^verbatim>\<open>upload.single('file')\<close> with the disk storage, the \<^verbatim>\<open>fileFilter\<close> and the 10 MB
  limit. The filter runs before anything is stored and passes an error for a MIME
  type that does not start with \<^verbatim>\<open>image/\<close>; a file whose size reaches the limit is
  removed again and an error is passed. \<open>Inl\<close> is the message of the error given to \<^verbatim>\<open>next\<close>, \<open>Inr\<close> is
  \<^verbatim>\<open>req.file.filename\<close>, if a file came. \<open>uuid\<close> is the value of \<^verbatim>\<open>uuidv4()\<close>.
\<close>

definition fileFilter :: "upload_file \<Rightarrow> bool" where
  "fileFilter f = startsWith (mimetype f) ''image/''"

definition multer_single ::
  "path \<Rightarrow> string \<Rightarrow> upload_file option \<Rightarrow> filesystem \<Rightarrow> (string + string option) \<times> filesystem" where
  "multer_single uploadDir uuid file fs =
     (case file of
        None \<Rightarrow> (Inr None, fs)
      | Some f \<Rightarrow>
          if \<not> fileFilter f then (Inl ''Only image files are allowed!'', fs)
          else
            (let fs1 = (if existsSync fs uploadDir then fs else fs(uploadDir \<mapsto> Dir));
                 uniqueFilename = uuid @ extname (originalname f)
             in if 10 * 1024 * 1024 \<le> size f then (Inl ''File too large'', fs1)
                else (Inr (Some uniqueFilename), fs1(uploadDir @ [uniqueFilename] \<mapsto> File))))"

text \<open>
  The global error handler of server.js, which answers every error passed to \<^verbatim>\<open>next\<close>;
  \<open>production\<close> is \<^verbatim>\<open>process.env.NODE_ENV === 'production'\<close>.
\<close>

definition error_handler :: "bool \<Rightarrow> string \<Rightarrow> response" where
  "error_handler production msg =
     (500, if production then MessageNoDetail ''Server Error''
           else MessageError ''Server Error'' msg)"

text \<open>
  The text field \<^verbatim>\<open>tags\<close> of the form, by what the handler makes of it: absent or empty
  (falsy), text on which \<^verbatim>\<open>JSON.parse\<close> throws, or text that parses to an array of
  strings. Text that parses to any other value is outside the model.
\<close>

datatype tags_field = NoTags | BadJson | TagsJson "string list"

record upload_request =
  u_file :: "upload_file option"
  u_title :: "string option"
  u_description :: "string option"
  u_tags :: tags_field
  u_protocol :: string
  u_host :: string

text \<open>The last steps of the upload handler: save, read back populated, answer 201.\<close>

definition store_upload ::
  "int \<Rightarrow> object_id \<Rightarrow> user list \<Rightarrow> user \<Rightarrow> upload_request \<Rightarrow> string \<Rightarrow> string list
     \<Rightarrow> image list \<Rightarrow> filesystem \<Rightarrow> response \<times> image list \<times> filesystem" where
  "store_upload now oid users reqUser r url ts images fs =
     (let newImage = Image_new url (or_empty (u_title r)) (or_empty (u_description r)) ts
                       (user_id reqUser) oid now
      in case Image_save images newImage of
           None \<Rightarrow> ((500, MessageCaught ''Server Error''), images, fs)
         | Some images' \<Rightarrow>
             (case Image_findById images' oid of
                None \<Rightarrow> ((201, NoImage), images', fs)
              | Some d \<Rightarrow> ((201, ImageJson d (snd (populate users d))), images', fs)))"

text \<open>
  The route after \<^verbatim>\<open>ensureAuthenticated\<close>: multer, then the handler. An error from multer
  skips the handler and reaches the global error handler.
\<close>

definition post_upload ::
  "bool \<Rightarrow> path \<Rightarrow> string \<Rightarrow> int \<Rightarrow> object_id \<Rightarrow> user list \<Rightarrow> user \<Rightarrow> upload_request
     \<Rightarrow> image list \<Rightarrow> filesystem \<Rightarrow> response \<times> image list \<times> filesystem" where
  "post_upload production uploadDir uuid now oid users reqUser r images fs =
     (case multer_single uploadDir uuid (u_file r) fs of
        (Inl msg, fs') \<Rightarrow> (error_handler production msg, images, fs')
      | (Inr None, fs') \<Rightarrow> ((400, Message ''No image file uploaded''), images, fs')
      | (Inr (Some filename), fs') \<Rightarrow>
          (let baseUrl = u_protocol r @ ''://'' @ u_host r;
               relativePath = ''/uploads/'' @ filename;
               url = baseUrl @ relativePath
           in case u_tags r of
                BadJson \<Rightarrow> ((500, MessageCaught ''Server Error''), images, fs')
              | NoTags \<Rightarrow> store_upload now oid users reqUser r url [] images fs'
              | TagsJson ts \<Rightarrow> store_upload now oid users reqUser r url ts images fs'))"

section \<open>Sample data\<close>

text \<open>Concrete users, tokens, requests and images, used where a property is run on an input.\<close>

abbreviation alice_token :: decoded_token where
  "alice_token \<equiv>
     \<lparr>uid = ''fb-alice'', tok_email = Some ''alice@example.com'', tok_name = Some ''Alice'',
      tok_picture = None, sign_in_provider = Some ''github.com''\<rparr>"

abbreviation sample_verifier :: verifier where
  "sample_verifier \<equiv> [''tok'' \<mapsto> alice_token]"

abbreviation alice :: user where
  "alice \<equiv>
     \<lparr>user_id = 1, firebaseUid = ''fb-alice'', githubId = None, email = Some ''alice@example.com'',
      username = ''Alice'', displayName = Some ''Alice'', profileUrl = None, avatarUrl = None,
      user_createdAt = 1000, user_role = RoleUser\<rparr>"

abbreviation bob :: user where
  "bob \<equiv>
     \<lparr>user_id = 2, firebaseUid = ''fb-bob'', githubId = None, email = None,
      username = ''bob'', displayName = Some ''Bob'', profileUrl = None, avatarUrl = None,
      user_createdAt = 900, user_role = RoleUser\<rparr>"

abbreviation anonymous_request :: request where
  "anonymous_request \<equiv>
     \<lparr>req_session = Some \<lparr>userId = None\<rparr>, req_authorization = None, req_user = None\<rparr>"

abbreviation bearer_request :: request where
  "bearer_request \<equiv>
     \<lparr>req_session = Some \<lparr>userId = None\<rparr>, req_authorization = Some ''Bearer tok'',
      req_user = None\<rparr>"

abbreviation stale_request :: request where
  "stale_request \<equiv>
     \<lparr>req_session = Some \<lparr>userId = Some 7\<rparr>, req_authorization = None, req_user = None\<rparr>"

abbreviation uploaded_image :: image where
  "uploaded_image \<equiv>
     \<lparr>image_id = 10, imageUrl = ''http://localhost:5000/uploads/9b2e4c1a-7d3f-4a6b-8c5e-2f1d0a9b8c7d.png'', title = ''mine'',
      description = [], tags = [], image_user = 1, likes = [], image_createdAt = 5\<rparr>"

abbreviation remote_image :: image where
  "remote_image \<equiv>
     \<lparr>image_id = 11, imageUrl = ''https://example.com/uploads/9b2e4c1a-7d3f-4a6b-8c5e-2f1d0a9b8c7d.png'', title = ''remote'',
      description = [], tags = [], image_user = 2, likes = [], image_createdAt = 6\<rparr>"

abbreviation uploads :: path where
  "uploads \<equiv> [''srv'', ''uploads'']"

abbreviation sample_fs :: filesystem where
  "sample_fs \<equiv> [uploads \<mapsto> Dir, [''srv'', ''uploads'', ''9b2e4c1a-7d3f-4a6b-8c5e-2f1d0a9b8c7d.png''] \<mapsto> File]"

abbreviation old_image :: image where
  "old_image \<equiv>
     \<lparr>image_id = 20, imageUrl = ''https://example.com/cat.png'', title = ''cat cat'',
      description = [], tags = [''cat''], image_user = 1, likes = [], image_createdAt = 100\<rparr>"

abbreviation new_image :: image where
  "new_image \<equiv>
     \<lparr>image_id = 21, imageUrl = ''https://example.com/dog.png'', title = ''dog and cat'',
      description = [], tags = [], image_user = 2, likes = [], image_createdAt = 200\<rparr>"

text \<open>The text index's answer to the query \<^verbatim>\<open>cat\<close>: the older image is the better match.\<close>

abbreviation cat_scores :: "image \<rightharpoonup> nat" where
  "cat_scores \<equiv> [old_image \<mapsto> 2, new_image \<mapsto> 1]"

abbreviation text_upload :: upload_request where
  "text_upload \<equiv>
     \<lparr>u_file = Some \<lparr>originalname = ''notes.txt'', mimetype = ''text/plain'', size = 10\<rparr>,
      u_title = Some ''notes'', u_description = None, u_tags = NoTags,
      u_protocol = ''http'', u_host = ''localhost:5000''\<rparr>"




chapter \<open>Properties\<close>

section \<open>Session resolution: stale sessions\<close>

text \<open>
  Claim C8. A request to \<^verbatim>\<open>ensureAuthenticated\<close> whose session stores a user id that no
  longer resolves to a User is answered 401 with error code \<^verbatim>\<open>USER_NOT_FOUND\<close>, and the
  request, its session included, is left exactly as it was: the session is not destroyed
  and still carries the stale id. The sibling handler \<^verbatim>\<open>GET /user\<close> does destroy it.
\<close>

theorem ensureAuthenticated_stale_session_kept:
  assumes "req_session req = Some sess" and "userId sess = Some i"
    and "User_findById users i = None"
  shows "ensureAuthenticated verifyIdToken users req = Respond USER_NOT_FOUND req
       \<and> req_session req = Some sess \<and> userId sess = Some i
       \<and> snd (get_user users req) = req\<lparr>req_session := None\<rparr>"
  using assms by (simp add: ensureAuthenticated_def get_user_def)

theorem ensureAuthenticated_stale_session_kept_witness:
  "ensureAuthenticated Map.empty []
      \<lparr>req_session = Some \<lparr>userId = Some 7\<rparr>, req_authorization = None, req_user = None\<rparr>
    = Respond (401, AuthFailure ''User not found. Please log in again.'' ''USER_NOT_FOUND'')
      \<lparr>req_session = Some \<lparr>userId = Some 7\<rparr>, req_authorization = None, req_user = None\<rparr>
   \<and> snd (get_user []
      \<lparr>req_session = Some \<lparr>userId = Some 7\<rparr>, req_authorization = None, req_user = None\<rparr>)
    = \<lparr>req_session = None, req_authorization = None, req_user = None\<rparr>"
  using ensureAuthenticated_stale_session_kept
    [of "\<lparr>req_session = Some \<lparr>userId = Some 7\<rparr>, req_authorization = None, req_user = None\<rparr>"
        "\<lparr>userId = Some 7\<rparr>" 7 "[]" Map.empty]
  by (simp add: User_findById_def USER_NOT_FOUND_def)

section \<open>Session resolution: bearer tokens\<close>

lemma split_from_nonempty: "split_from sep cur s \<noteq> []"
  by (induction sep cur s rule: split_from.induct) auto

lemma split_from_no_sep:
  "\<not> includes_str s sep \<Longrightarrow> sep \<noteq> [] \<Longrightarrow> split_from sep cur s = [rev cur @ s]"
  by (induction sep cur s rule: split_from.induct) auto

text \<open>A header that starts with \<^verbatim>\<open>'Bearer '\<close> always yields a token.\<close>

lemma bearer_token_present:
  assumes "startsWith h ''Bearer ''"
  shows "\<exists>tok. at_index (split h ''Bearer '') 1 = Some tok"
proof -
  from assms obtain r where h: "h = ''Bearer '' @ r"
    unfolding startsWith_def by (metis append_take_drop_id)
  have "split h ''Bearer '' = [] # split_from ''Bearer '' [] r"
    unfolding h split_def by (simp add: startsWith_def)
  moreover have "split_from ''Bearer '' [] r \<noteq> []"
    by (rule split_from_nonempty)
  ultimately show ?thesis
    by (cases "split_from ''Bearer '' [] r") (auto simp: at_index_def)
qed

text \<open>The token is the rest of the header, when the rest does not repeat the prefix.\<close>

lemma bearer_token_simple:
  assumes "\<not> includes_str tok ''Bearer ''"
  shows "at_index (split (''Bearer '' @ tok) ''Bearer '') 1 = Some tok"
proof -
  have "split (''Bearer '' @ tok) ''Bearer '' = [] # split_from ''Bearer '' [] tok"
    unfolding split_def by (simp add: startsWith_def)
  then show ?thesis
    using split_from_no_sep[OF assms, of "[]"] by (simp add: at_index_def)
qed

text \<open>
  Claim C1, as stated, fails: a request with no session user id and a bearer token that
  the verifier accepts, for an external identity the collection has never seen, is
  rejected with 401 \<^verbatim>\<open>USER_NOT_FOUND\<close>; no user is created and the request is unchanged.
\<close>

theorem ensureAuthenticated_unseen_identity_rejected:
  "sample_verifier ''tok'' = Some alice_token
   \<and> User_findOne_firebaseUid [bob] (uid alice_token) = None
   \<and> ensureAuthenticated sample_verifier [bob] bearer_request
       = Respond (401, AuthFailure ''User not found. Please log in again.'' ''USER_NOT_FOUND'')
           bearer_request"
  by (simp add: ensureAuthenticated_def ensure_bearer_def startsWith_def split_def at_index_def
      User_findOne_firebaseUid_def USER_NOT_FOUND_def)

text \<open>
  Claim C1, amended. For a request with a session that stores no user id and an
  \<^verbatim>\<open>Authorization\<close> header starting with \<^verbatim>\<open>'Bearer '\<close> whose token the verifier accepts,
  \<^verbatim>\<open>ensureAuthenticated\<close> looks the user up by the verified external id. If the collection
  holds that identity, the user's id is written into the session, the user is attached to
  the request and the request continues (Authenticated). If it does not, the request is
  answered 401 \<^verbatim>\<open>USER_NOT_FOUND\<close> and left unchanged. The middleware only reads the
  collection: it never creates a user.
\<close>

theorem ensureAuthenticated_bearer:
  assumes "req_session req = Some sess" and "userId sess = None"
    and "req_authorization req = Some h" and "startsWith h ''Bearer ''"
    and "at_index (split h ''Bearer '') 1 = Some tok"
    and "verifyIdToken tok = Some t"
  shows "ensureAuthenticated verifyIdToken users req =
          (case User_findOne_firebaseUid users (uid t) of
             None \<Rightarrow> Respond USER_NOT_FOUND req
           | Some u \<Rightarrow> Next (req\<lparr>req_session := Some (sess\<lparr>userId := Some (user_id u)\<rparr>),
                                 req_user := Some u\<rparr>))"
proof -
  from assms(4) have "h \<noteq> []"
    by (auto simp: startsWith_def)
  with assms show ?thesis
    by (simp add: ensureAuthenticated_def ensure_bearer_def)
qed

theorem ensureAuthenticated_bearer_witness:
  "ensureAuthenticated sample_verifier [bob, alice] bearer_request
     = Next \<lparr>req_session = Some \<lparr>userId = Some 1\<rparr>, req_authorization = Some ''Bearer tok'',
             req_user = Some alice\<rparr>"
proof -
  have tok: "at_index (split ''Bearer tok'' ''Bearer '') 1 = Some ''tok''"
    using bearer_token_simple[of "''tok''"] by (simp add: startsWith_def)
  have "startsWith ''Bearer tok'' ''Bearer ''"
    by (simp add: startsWith_def)
  from ensureAuthenticated_bearer[of bearer_request "\<lparr>userId = None\<rparr>" "''Bearer tok''" "''tok''"
      sample_verifier alice_token "[bob, alice]", OF _ _ _ this tok]
  show ?thesis
    by (simp add: User_findOne_firebaseUid_def)
qed

section \<open>User Directory: creation races\<close>

text \<open>
  Claim C7, as stated, fails: when another request creates the same external identity
  between this request's \<^verbatim>\<open>findOne\<close> and its \<^verbatim>\<open>save\<close>, the handler answers 500; it does not
  fetch the existing user again and writes no session.
\<close>

theorem firebase_auth_race_is_an_error:
  "User_findOne_firebaseUid [] (uid alice_token) = None
   \<and> User_findOne_firebaseUid [alice] (uid alice_token) = Some alice
   \<and> firebase_auth sample_verifier 2000 3 (Some ''tok'') anonymous_request [] [alice]
       = ((500, MessageCaught ''Error processing user data''), anonymous_request, [alice])"
  by (simp add: firebase_auth_def User_findOne_firebaseUid_def User_insert_def new_user_def
      processing_error_def startsWith_def)

text \<open>
  Claim C7, amended. When the creation step of \<^verbatim>\<open>POST /firebase-auth\<close> hits the unique
  constraint on the external-identity id (the identity was absent at \<^verbatim>\<open>findOne\<close> and is
  present at \<^verbatim>\<open>save\<close>), the handler answers 500 ``Error processing user data'', leaves
  the collection and the session as they were, and does not fetch the existing user again.
\<close>

theorem firebase_auth_duplicate_creation:
  assumes "truthy idToken" and "verifyIdToken (the idToken) = Some t"
    and "truthy (sign_in_provider t)" and "includes_str (the (sign_in_provider t)) ''github''"
    and "User_findOne_firebaseUid users (uid t) = None"
    and "User_findOne_firebaseUid users_at_save (uid t) = Some v"
  shows "firebase_auth verifyIdToken now oid idToken req users users_at_save
         = ((500, MessageCaught ''Error processing user data''), req, users_at_save)"
  using assms
  by (simp add: firebase_auth_def User_insert_def new_user_def processing_error_def)

theorem firebase_auth_duplicate_creation_witness:
  "firebase_auth sample_verifier 2000 3 (Some ''tok'') bearer_request [bob] [bob, alice]
     = ((500, MessageCaught ''Error processing user data''), bearer_request, [bob, alice])"
proof -
  have "includes_str (the (sign_in_provider alice_token)) ''github''"
    by (simp add: startsWith_def)
  from firebase_auth_duplicate_creation[of "Some ''tok''" sample_verifier alice_token
      "[bob]" "[bob, alice]" alice 2000 3 bearer_request, OF _ _ _ this]
  show ?thesis
    by (simp add: User_findOne_firebaseUid_def)
qed

section \<open>Roles and deletion\<close>

lemma create_session_users: "create_session req u us = (resp, req', us') \<Longrightarrow> us' = us"
  by (auto simp: create_session_def split: option.splits)

text \<open>The three things the handler can do to the collection: nothing, one insert, one update.\<close>

lemma firebase_auth_collection:
  assumes "firebase_auth verifyIdToken now oid idToken req users users_at_save = (resp, req', users')"
  shows "users' = users_at_save
       \<or> (\<exists>t. users' = users_at_save @ [new_user t now oid])
       \<or> (\<exists>t u. users' = map (\<lambda>v. if user_id v = user_id u then assign_hints t u v else v)
                             users_at_save)"
  using assms
  by (auto simp: firebase_auth_def User_insert_def User_update_def
      split: if_splits option.splits dest!: create_session_users)

lemma assign_hints_id: "user_id (assign_hints t u v) = user_id v"
  by (simp add: assign_hints_def Let_def)

lemma assign_hints_role: "user_role (assign_hints t u v) = user_role v"
  by (simp add: assign_hints_def Let_def)

text \<open>The handler never changes the role of a user that is already stored.\<close>

lemma firebase_auth_keeps_roles:
  assumes "firebase_auth verifyIdToken now oid idToken req users users_at_save = (resp, req', users')"
  shows "map (\<lambda>v. (user_id v, user_role v)) (take (length users_at_save) users')
         = map (\<lambda>v. (user_id v, user_role v)) users_at_save"
proof -
  from firebase_auth_collection[OF assms]
  consider "users' = users_at_save"
    | t where "users' = users_at_save @ [new_user t now oid]"
    | t w where "users' = map (\<lambda>v. if user_id v = user_id w then assign_hints t w v else v)
                            users_at_save"
    by blast
  then show ?thesis
  proof cases
    case 3
    then show ?thesis
      by (auto simp: assign_hints_id assign_hints_role)
  qed simp_all
qed

lemma firebase_auth_created_role:
  assumes "firebase_auth verifyIdToken now oid idToken req users users_at_save = (resp, req', users')"
    and "u \<in> set users'" and "user_id u \<notin> user_id ` set users_at_save"
  shows "user_role u = RoleUser"
proof -
  from firebase_auth_collection[OF assms(1)]
  consider "users' = users_at_save"
    | t where "users' = users_at_save @ [new_user t now oid]"
    | t w where "users' = map (\<lambda>v. if user_id v = user_id w then assign_hints t w v else v)
                            users_at_save"
    by blast
  then show ?thesis
  proof cases
    case 1
    with assms(2,3) show ?thesis by auto
  next
    case 2
    with assms(2,3) have "u = new_user t now oid" by auto
    then show ?thesis by (simp add: new_user_def)
  next
    case 3
    with assms(2) obtain v where v: "v \<in> set users_at_save"
      and "u = (if user_id v = user_id w then assign_hints t w v else v)"
      by auto
    then have "user_id u = user_id v" by (auto simp: assign_hints_id split: if_splits)
    with v assms(3) show ?thesis by force
  qed
qed

lemma delete_image_forbidden:
  assumes "Image_findById images i = Some d" and "image_user d \<noteq> user_id u"
    and "user_role u = RoleUser"
  shows "delete_image uploadDir u (ObjectId i) images fs
         = ((403, Message ''Not authorized to delete this image''), images, fs)"
  using assms by (simp add: delete_image_def)

text \<open>
  Claim C10. A user that \<^verbatim>\<open>POST /firebase-auth\<close> has created (a member of the collection
  it leaves behind whose id was not in the collection before the write) has role
  \<^verbatim>\<open>user\<close>, so is not an admin, and \<^verbatim>\<open>DELETE /:id\<close> by that user on an image owned by
  someone else is answered 403 and changes neither the images nor the files.
\<close>

theorem created_user_cannot_delete_others:
  assumes "firebase_auth verifyIdToken now oid idToken req users users_at_save = (resp, req', users')"
    and "u \<in> set users'" and "user_id u \<notin> user_id ` set users_at_save"
    and "Image_findById images i = Some d" and "image_user d \<noteq> user_id u"
  shows "user_role u = RoleUser \<and> \<not> isAdmin u
       \<and> delete_image uploadDir u (ObjectId i) images fs
           = ((403, Message ''Not authorized to delete this image''), images, fs)"
  using firebase_auth_created_role[OF assms(1-3)] assms(4,5)
  by (simp add: delete_image_forbidden isAdmin_def)

theorem created_user_cannot_delete_others_witness:
  "firebase_auth sample_verifier 2000 3 (Some ''tok'') anonymous_request [bob] [bob]
     = ((200, UserJson 3 ''Alice'' (Some ''Alice'') None False),
        \<lparr>req_session = Some \<lparr>userId = Some 3\<rparr>, req_authorization = None, req_user = None\<rparr>,
        [bob, new_user alice_token 2000 3])
   \<and> user_role (new_user alice_token 2000 3) = RoleUser
   \<and> \<not> isAdmin (new_user alice_token 2000 3)
   \<and> delete_image uploads (new_user alice_token 2000 3) (ObjectId 11) [uploaded_image, remote_image]
        sample_fs
       = ((403, Message ''Not authorized to delete this image''),
          [uploaded_image, remote_image], sample_fs)"
proof -
  have run: "firebase_auth sample_verifier 2000 3 (Some ''tok'') anonymous_request [bob] [bob]
     = ((200, UserJson 3 ''Alice'' (Some ''Alice'') None False),
        \<lparr>req_session = Some \<lparr>userId = Some 3\<rparr>, req_authorization = None, req_user = None\<rparr>,
        [bob, new_user alice_token 2000 3])"
    by (simp add: firebase_auth_def User_findOne_firebaseUid_def User_insert_def new_user_def
        new_username_def create_session_def user_json_def isAdmin_def startsWith_def trim_def
        is_space_def)
  have fresh: "user_id (new_user alice_token 2000 3) \<notin> user_id ` set [bob]"
    by (simp add: new_user_def)
  have img: "Image_findById [uploaded_image, remote_image] 11 = Some remote_image"
    by (simp add: Image_findById_def)
  have other: "image_user remote_image \<noteq> user_id (new_user alice_token 2000 3)"
    by (simp add: new_user_def)
  from created_user_cannot_delete_others[OF run _ fresh img other, of uploads sample_fs] run
  show ?thesis by simp
qed

section \<open>Deletion and the uploads directory\<close>

text \<open>
  What does hold of the clean-up: a URL without \<^verbatim>\<open>/uploads/\<close> leaves the files alone, a
  file that is not there is no error, and a delete by the owner or an admin whose
  clean-up does not throw removes the record.
\<close>

lemma delete_without_uploads_segment:
  "\<not> includes_str url ''/uploads/'' \<Longrightarrow> delete_backing_file uploadDir fs url = Some fs"
  by (simp add: delete_backing_file_def)

lemma delete_missing_file_is_no_error:
  assumes "at_index (split url ''/uploads/'') 1 = Some filePath"
    and "\<not> existsSync fs (path_join uploadDir filePath)"
  shows "delete_backing_file uploadDir fs url = Some fs"
  using assms by (simp add: delete_backing_file_def)

lemma delete_by_owner_or_admin:
  assumes "Image_findById images i = Some d"
    and "image_user d = user_id reqUser \<or> user_role reqUser = RoleAdmin"
    and "delete_backing_file uploadDir fs (imageUrl d) = Some fs'"
  shows "delete_image uploadDir reqUser (ObjectId i) images fs
         = ((200, Removed i), Image_findByIdAndDelete images i, fs')"
  using assms by (auto simp: delete_image_def)

text \<open>
  Claim C2 at a failing input. Alice owns an upload that this server stores under a
  generated name in its uploads directory; Bob owns an image whose URL is on a
  third-party host and ends in \<^verbatim>\<open>/uploads/\<close> and that same name. Bob deleting his remote
  image is answered 200, removes his record and also unlinks Alice's file: the test
  \<^verbatim>\<open>includes('/uploads/')\<close> holds of the remote URL.
\<close>

theorem delete_remote_image_unlinks_local_file:
  "sample_fs [''srv'', ''uploads'', ''9b2e4c1a-7d3f-4a6b-8c5e-2f1d0a9b8c7d.png''] = Some File
   \<and> (case delete_image uploads bob (ObjectId 11) [uploaded_image, remote_image] sample_fs of
        (resp, images', fs') \<Rightarrow>
          resp = (200, Removed 11) \<and> images' = [uploaded_image]
          \<and> fs' [''srv'', ''uploads'', ''9b2e4c1a-7d3f-4a6b-8c5e-2f1d0a9b8c7d.png''] = None)"
  by (simp add: delete_image_def Image_findById_def delete_backing_file_def startsWith_def
      split_def at_index_def path_join_def existsSync_def unlinkSync_def
      Image_findByIdAndDelete_def)

section \<open>Listing, search and pagination\<close>

lemma skip_limit_aux:
  assumes "0 \<le> s" and "0 < l"
  shows "skip_limit s l xs = Some (take (nat l) (drop (nat s) xs))"
  using assms by (simp add: skip_limit_def)

lemma page_length_aux:
  assumes "0 \<le> s" and "0 < l"
  shows "int (length (take (nat l) (drop (nat s) xs))) = min l (max 0 (int (length xs) - s))"
  using assms by (auto simp: min_def max_def)

lemma skip_nonneg: "0 < (lmt::int) \<Longrightarrow> 0 < pg \<Longrightarrow> 0 \<le> (pg - 1) * lmt"
  by (simp add: zero_le_mult_iff)

lemma skip_limit_page:
  assumes "0 < lmt" and "0 < pg"
  shows "skip_limit ((pg - 1) * lmt) lmt xs
         = Some (take (nat lmt) (drop (nat ((pg - 1) * lmt)) xs))"
  by (rule skip_limit_aux[OF skip_nonneg[OF assms] assms(1)])

lemma page_length:
  assumes "0 < lmt" and "0 < pg"
  shows "int (length (take (nat lmt) (drop (nat ((pg - 1) * lmt)) xs)))
         = min lmt (max 0 (int (length xs) - (pg - 1) * lmt))"
  by (rule page_length_aux[OF skip_nonneg[OF assms] assms(1)])

lemma newest_first_sorted:
  "sorted_wrt (\<lambda>a b. image_createdAt b \<le> image_createdAt a) (newest_first ds)"
proof -
  have "sorted (map (\<lambda>d. - image_createdAt d) (newest_first ds))"
    unfolding newest_first_def by (rule sorted_sort_key)
  then show ?thesis by (simp add: sorted_map)
qed

lemma by_relevance_sorted:
  "sorted_wrt (\<lambda>a b. the (textScore b) \<le> the (textScore a)) (by_relevance textScore ds)"
proof -
  have "sorted (map (\<lambda>d. - int (the (textScore d))) (by_relevance textScore ds))"
    unfolding by_relevance_def by (rule sorted_sort_key)
  then show ?thesis by (simp add: sorted_map)
qed

lemma page_sorted: "sorted_wrt P xs \<Longrightarrow> sorted_wrt P (take n (drop m xs))"
  by (simp add: sorted_wrt_drop sorted_wrt_take)

lemma populate_fst: "map (fst \<circ> populate users) ds = ds"
  by (induction ds) (simp_all add: populate_def)

text \<open>One page of \<^verbatim>\<open>GET /\<close>: the envelope, the number of items and their order.\<close>

lemma get_images_page:
  assumes "0 < lmt" and "0 < pg"
  shows "\<exists>items. get_images users images (Some lmt) (Some pg)
            = (200, ImageList items
                 \<lparr>total = length images, page = pg, limit = lmt,
                  pages = Some \<lceil>real (length images) / real_of_int lmt\<rceil>\<rparr>)
          \<and> int (length items) = min lmt (max 0 (int (length images) - (pg - 1) * lmt))
          \<and> sorted_wrt (\<lambda>a b. image_createdAt b \<le> image_createdAt a) (map fst items)"
proof -
  from assms have lz: "lmt \<noteq> 0" by simp
  let ?page = "\<lambda>xs::image list. take (nat lmt) (drop (nat ((pg - 1) * lmt)) xs)"
  have "get_images users images (Some lmt) (Some pg)
        = (200, ImageList (map (populate users) (?page (newest_first images)))
             \<lparr>total = length images, page = pg, limit = lmt,
              pages = Some \<lceil>real (length images) / real_of_int lmt\<rceil>\<rparr>)"
    using lz by (simp add: get_images_def page_of_def limit_of_def skip_limit_page[OF assms]
        pagination_of_def pages_of_def)
  moreover have "int (length (map (populate users) (?page (newest_first images))))
        = min lmt (max 0 (int (length images) - (pg - 1) * lmt))"
    using page_length[OF assms, of "newest_first images"] by (simp add: newest_first_def)
  moreover have "sorted_wrt (\<lambda>a b. image_createdAt b \<le> image_createdAt a)
        (map fst (map (populate users) (?page (newest_first images))))"
    by (simp add: populate_fst page_sorted newest_first_sorted)
  ultimately show ?thesis by blast
qed

text \<open>One page of \<^verbatim>\<open>GET /user/:username\<close>, for a user that exists.\<close>

lemma get_user_images_page:
  assumes "0 < lmt" and "0 < pg" and "User_findOne_username users name = Some u"
  shows "\<exists>items n. get_user_images users images name (Some lmt) (Some pg)
            = (200, UserImageList items
                 \<lparr>total = n, page = pg, limit = lmt,
                  pages = Some \<lceil>real n / real_of_int lmt\<rceil>\<rparr> (project_user u))
          \<and> n = length (filter (\<lambda>d. image_user d = user_id u) images)
          \<and> int (length items) = min lmt (max 0 (int n - (pg - 1) * lmt))
          \<and> sorted_wrt (\<lambda>a b. image_createdAt b \<le> image_createdAt a) (map fst items)"
proof -
  from assms have lz: "lmt \<noteq> 0" by simp
  let ?page = "\<lambda>xs::image list. take (nat lmt) (drop (nat ((pg - 1) * lmt)) xs)"
  let ?mine = "filter (\<lambda>d. image_user d = user_id u) images"
  have "get_user_images users images name (Some lmt) (Some pg)
        = (200, UserImageList (map (populate users) (?page (newest_first ?mine)))
             \<lparr>total = length ?mine, page = pg, limit = lmt,
              pages = Some \<lceil>real (length ?mine) / real_of_int lmt\<rceil>\<rparr> (project_user u))"
    using lz assms(3) by (simp add: get_user_images_def Let_def page_of_def limit_of_def
        skip_limit_page[OF assms(1,2)] pagination_of_def pages_of_def)
  moreover have "int (length (map (populate users) (?page (newest_first ?mine))))
        = min lmt (max 0 (int (length ?mine) - (pg - 1) * lmt))"
    using page_length[OF assms(1,2), of "newest_first ?mine"] by (simp add: newest_first_def)
  moreover have "sorted_wrt (\<lambda>a b. image_createdAt b \<le> image_createdAt a)
        (map fst (map (populate users) (?page (newest_first ?mine))))"
    by (simp add: populate_fst page_sorted newest_first_sorted)
  ultimately show ?thesis by blast
qed

text \<open>One page of \<^verbatim>\<open>GET /search\<close>, for a non-empty query: ordered by relevance.\<close>

lemma get_search_page:
  assumes "0 < lmt" and "0 < pg" and "truthy q"
  shows "\<exists>items n. get_search textScore users images q (Some lmt) (Some pg)
            = (200, SearchResult items
                 \<lparr>total = n, page = pg, limit = lmt,
                  pages = Some \<lceil>real n / real_of_int lmt\<rceil>\<rparr> (the q))
          \<and> n = length (filter (\<lambda>d. textScore d \<noteq> None) images)
          \<and> int (length items) = min lmt (max 0 (int n - (pg - 1) * lmt))
          \<and> sorted_wrt (\<lambda>a b. the (textScore b) \<le> the (textScore a)) (map fst items)"
proof -
  from assms have lz: "lmt \<noteq> 0" by simp
  let ?page = "\<lambda>xs::image list. take (nat lmt) (drop (nat ((pg - 1) * lmt)) xs)"
  let ?found = "filter (\<lambda>d. textScore d \<noteq> None) images"
  have "get_search textScore users images q (Some lmt) (Some pg)
        = (200, SearchResult (map (populate users) (?page (by_relevance textScore ?found)))
             \<lparr>total = length ?found, page = pg, limit = lmt,
              pages = Some \<lceil>real (length ?found) / real_of_int lmt\<rceil>\<rparr> (the q))"
    using lz assms(3) by (simp add: get_search_def Let_def page_of_def limit_of_def
        skip_limit_page[OF assms(1,2)] pagination_of_def pages_of_def)
  moreover have "int (length (map (populate users) (?page (by_relevance textScore ?found))))
        = min lmt (max 0 (int (length ?found) - (pg - 1) * lmt))"
    using page_length[OF assms(1,2), of "by_relevance textScore ?found"]
    by (simp add: by_relevance_def)
  moreover have "sorted_wrt (\<lambda>a b. the (textScore b) \<le> the (textScore a))
        (map fst (map (populate users) (?page (by_relevance textScore ?found))))"
    by (simp add: populate_fst page_sorted by_relevance_sorted)
  ultimately show ?thesis by blast
qed

text \<open>
  Claim C3, as stated, fails for search requests: \<^verbatim>\<open>GET /search\<close> orders its items by
  relevance, so an older image that matches better comes before a newer one.
\<close>

theorem search_is_not_newest_first:
  "get_search cat_scores [] [new_image, old_image] (Some ''cat'') (Some 10) (Some 1)
     = (200, SearchResult [(old_image, None), (new_image, None)]
               \<lparr>total = 2, page = 1, limit = 10, pages = Some 1\<rparr> ''cat'')
   \<and> image_createdAt old_image < image_createdAt new_image"
  by (simp add: get_search_def Let_def page_of_def limit_of_def skip_limit_def by_relevance_def
      populate_def User_findById_def pagination_of_def pages_of_def ceiling_eq_iff)

text \<open>
  Claim C3, amended. For positive integers \<open>limit\<close> and \<open>page\<close>, every listing request
  (\<^verbatim>\<open>GET /\<close>, and \<^verbatim>\<open>GET /user/:username\<close> for an existing user) and every search request
  with a non-empty query is answered 200 with an envelope in which
  \<open>pages = ceil(total / limit)\<close>, and returns \<open>min(limit, max(0, total - (page - 1) * limit))\<close>
  items; the items of a listing are sorted newest-first, the items of a search by
  descending relevance score.
\<close>

theorem pagination_envelope:
  assumes "0 < lmt" and "0 < pg"
  shows "(\<exists>items. get_images users images (Some lmt) (Some pg)
            = (200, ImageList items
                 \<lparr>total = length images, page = pg, limit = lmt,
                  pages = Some \<lceil>real (length images) / real_of_int lmt\<rceil>\<rparr>)
          \<and> int (length items) = min lmt (max 0 (int (length images) - (pg - 1) * lmt))
          \<and> sorted_wrt (\<lambda>a b. image_createdAt b \<le> image_createdAt a) (map fst items))
       \<and> (User_findOne_username users name = Some u \<longrightarrow>
           (\<exists>items n. get_user_images users images name (Some lmt) (Some pg)
            = (200, UserImageList items
                 \<lparr>total = n, page = pg, limit = lmt,
                  pages = Some \<lceil>real n / real_of_int lmt\<rceil>\<rparr> (project_user u))
          \<and> n = length (filter (\<lambda>d. image_user d = user_id u) images)
          \<and> int (length items) = min lmt (max 0 (int n - (pg - 1) * lmt))
          \<and> sorted_wrt (\<lambda>a b. image_createdAt b \<le> image_createdAt a) (map fst items)))
       \<and> (truthy q \<longrightarrow>
           (\<exists>items n. get_search textScore users images q (Some lmt) (Some pg)
            = (200, SearchResult items
                 \<lparr>total = n, page = pg, limit = lmt,
                  pages = Some \<lceil>real n / real_of_int lmt\<rceil>\<rparr> (the q))
          \<and> n = length (filter (\<lambda>d. textScore d \<noteq> None) images)
          \<and> int (length items) = min lmt (max 0 (int n - (pg - 1) * lmt))
          \<and> sorted_wrt (\<lambda>a b. the (textScore b) \<le> the (textScore a)) (map fst items)))"
  using get_images_page[OF assms] get_user_images_page[OF assms] get_search_page[OF assms]
  by blast

theorem pagination_envelope_witness:
  "(\<exists>items. get_images [alice, bob] [new_image, old_image] (Some 1) (Some 2)
            = (200, ImageList items
                 \<lparr>total = length [new_image, old_image], page = 2, limit = 1,
                  pages = Some \<lceil>real (length [new_image, old_image]) / real_of_int 1\<rceil>\<rparr>)
          \<and> int (length items) = min 1 (max 0 (int (length [new_image, old_image]) - (2 - 1) * 1))
          \<and> sorted_wrt (\<lambda>a b. image_createdAt b \<le> image_createdAt a) (map fst items))
   \<and> (\<exists>items n. get_user_images [alice, bob] [new_image, old_image] ''bob'' (Some 1) (Some 2)
            = (200, UserImageList items
                 \<lparr>total = n, page = 2, limit = 1, pages = Some \<lceil>real n / real_of_int 1\<rceil>\<rparr>
                 (project_user bob))
          \<and> n = length (filter (\<lambda>d. image_user d = user_id bob) [new_image, old_image])
          \<and> int (length items) = min 1 (max 0 (int n - (2 - 1) * 1))
          \<and> sorted_wrt (\<lambda>a b. image_createdAt b \<le> image_createdAt a) (map fst items))
   \<and> (\<exists>items n. get_search cat_scores [alice, bob] [new_image, old_image] (Some ''cat'')
                (Some 1) (Some 2)
            = (200, SearchResult items
                 \<lparr>total = n, page = 2, limit = 1, pages = Some \<lceil>real n / real_of_int 1\<rceil>\<rparr>
                 (the (Some ''cat'')))
          \<and> n = length (filter (\<lambda>d. cat_scores d \<noteq> None) [new_image, old_image])
          \<and> int (length items) = min 1 (max 0 (int n - (2 - 1) * 1))
          \<and> sorted_wrt (\<lambda>a b. the (cat_scores b) \<le> the (cat_scores a)) (map fst items))
   \<and> get_images [alice, bob] [new_image, old_image] (Some 1) (Some 2)
       = (200, ImageList [(old_image, Some (''Alice'', Some ''Alice'', None))]
                 \<lparr>total = 2, page = 2, limit = 1, pages = Some 2\<rparr>)
   \<and> get_search cat_scores [alice, bob] [new_image, old_image] (Some ''cat'') (Some 1) (Some 2)
       = (200, SearchResult [(new_image, Some (''bob'', Some ''Bob'', None))]
                 \<lparr>total = 2, page = 2, limit = 1, pages = Some 2\<rparr> ''cat'')"
proof -
  have u: "User_findOne_username [alice, bob] ''bob'' = Some bob"
    by (simp add: User_findOne_username_def)
  have q: "truthy (Some ''cat'')"
    by simp
  have lp: "(0::int) < 1" "(0::int) < 2"
    by simp_all
  have e1: "get_images [alice, bob] [new_image, old_image] (Some 1) (Some 2)
       = (200, ImageList [(old_image, Some (''Alice'', Some ''Alice'', None))]
                 \<lparr>total = 2, page = 2, limit = 1, pages = Some 2\<rparr>)"
    by (simp add: get_images_def page_of_def limit_of_def skip_limit_def newest_first_def
        populate_def User_findById_def project_user_def pagination_of_def pages_of_def)
  have e2: "get_search cat_scores [alice, bob] [new_image, old_image] (Some ''cat'') (Some 1) (Some 2)
       = (200, SearchResult [(new_image, Some (''bob'', Some ''Bob'', None))]
                 \<lparr>total = 2, page = 2, limit = 1, pages = Some 2\<rparr> ''cat'')"
    by (simp add: get_search_def Let_def page_of_def limit_of_def skip_limit_def by_relevance_def
        populate_def User_findById_def project_user_def pagination_of_def pages_of_def)
  from pagination_envelope[OF lp, of "[alice, bob]" "[new_image, old_image]" "''bob''" bob
      "Some ''cat''" cat_scores] u q e1 e2
  show ?thesis
    by blast
qed

section \<open>Uploads: rejected files and malformed tags\<close>

text \<open>
  Claim C5, as stated, fails: an upload declared \<^verbatim>\<open>text/plain\<close> is answered 500 by the
  global error handler, not 400. Nothing is written: the files are as before.
\<close>

theorem upload_of_text_file_is_500:
  "post_upload False uploads ''uuid'' 5 31 [alice] alice text_upload [] sample_fs
     = ((500, MessageError ''Server Error'' ''Only image files are allowed!''), [], sample_fs)"
  by (simp add: post_upload_def multer_single_def fileFilter_def startsWith_def
      error_handler_def)

text \<open>
  Claim C5, amended. For every upload whose declared MIME type does not start with
  \<^verbatim>\<open>image/\<close>, the route fails with the error ``Only image files are allowed!'', which the
  global error handler answers with status 500; no file is written to disk and no
  image is stored.
\<close>

theorem upload_unsupported_file_type:
  assumes "u_file r = Some f" and "\<not> startsWith (mimetype f) ''image/''"
  shows "post_upload production uploadDir uuid now oid users reqUser r images fs
         = (error_handler production ''Only image files are allowed!'', images, fs)
       \<and> fst (error_handler production ''Only image files are allowed!'') = 500"
  using assms
  by (simp add: post_upload_def multer_single_def fileFilter_def error_handler_def)

theorem upload_unsupported_file_type_witness:
  "post_upload True uploads ''uuid'' 5 31 [alice] alice text_upload [old_image] sample_fs
     = ((500, MessageNoDetail ''Server Error''), [old_image], sample_fs)"
  using upload_unsupported_file_type[of text_upload
      "\<lparr>originalname = ''notes.txt'', mimetype = ''text/plain'', size = 10\<rparr>"
      True uploads "''uuid''" 5 31 "[alice]" alice "[old_image]" sample_fs]
  by (simp add: startsWith_def error_handler_def)




text \<open>
  The size limit itself: an image file whose size reaches 10 MB never gets to the
  handler, whatever its tags; multer's error goes to the global error handler, the
  file is removed again and nothing is stored.
\<close>

lemma upload_file_too_large:
  assumes "u_file r = Some f" and "startsWith (mimetype f) ''image/''"
    and "10 * 1024 * 1024 \<le> size f"
  shows "fst (post_upload production uploadDir uuid now oid users reqUser r images fs)
           = error_handler production ''File too large''
       \<and> fst (snd (post_upload production uploadDir uuid now oid users reqUser r images fs))
           = images"
  using assms
  by (simp add: post_upload_def multer_single_def fileFilter_def Let_def)

section \<open>The matcher and the patterns\<close>






















section \<open>Saving an image\<close>








section \<open>Adding an image by URL\<close>













text \<open>
  At the limit: a title of 100 letters followed by a no-break space is trimmed to 100
  characters before it is validated, so it is within the limits.
\<close>

lemma title_ending_in_no_break_space:
  "within_limits
     \<lparr>b_imageUrl = Some ''https://example.com/a.jpg'',
      b_title = Some (replicate 100 CHR ''x'' @ [CHR 0xA0]),
      b_description = None, b_tags = None\<rparr>"
proof -
  have "dropWhile is_space (replicate 100 CHR ''x'' @ [CHR 0xA0])
        = replicate 100 CHR ''x'' @ [CHR 0xA0]"
    by (simp add: dropWhile_eq_self_iff hd_append is_space_def)
  then have "trim (replicate 100 CHR ''x'' @ [CHR 0xA0]) = replicate 100 CHR ''x''"
    by (simp add: trim_def dropWhile_replicate is_space_def)
  then show ?thesis
    by (simp add: within_limits_def or_empty_def trim_def)
qed

end
